theory Spec2Isabelle
  imports Main
begin

section \<open>Python values used by \<^verbatim>\<open>gptme/init.py\<close>\<close>

text \<open>
  Python strings are modelled as \<^typ>\<open>string\<close>; a character stands for one code point
  below 256. An optional string (\<^verbatim>\<open>str | None\<close>) is a \<^typ>\<open>string option\<close>.
  Exceptions are values of \<open>error\<close>; a call that may raise returns \<open>error + 'a\<close>
  together with the state reached when it stopped.
\<close>

datatype error = ValueError string | EOFError | FileNotFoundError

text \<open>Truthiness of \<^verbatim>\<open>str | None\<close>: \<^verbatim>\<open>None\<close> and the empty string are falsy.\<close>

definition truthy :: "string option \<Rightarrow> bool" where
  "truthy s = (case s of None \<Rightarrow> False | Some v \<Rightarrow> v \<noteq> [])"

text \<open>
  \<^verbatim>\<open>str.isspace\<close> on the code points below 256: TAB..CR, FS..US, SPACE, NEL and
  NO-BREAK SPACE.
\<close>

definition isspace :: "char \<Rightarrow> bool" where
  "isspace c = (let n = (of_char c :: nat) in
     (9 \<le> n \<and> n \<le> 13) \<or> (28 \<le> n \<and> n \<le> 32) \<or> n = 133 \<or> n = 160)"

text \<open>\<^verbatim>\<open>str.strip()\<close> removes leading and trailing whitespace.\<close>

definition strip :: "string \<Rightarrow> string" where
  "strip s = rev (dropWhile isspace (rev (dropWhile isspace s)))"

definition startswith :: "string \<Rightarrow> string \<Rightarrow> bool" where
  "startswith s p = (take (length p) s = p)"

section \<open>The process state and the external collaborators\<close>

text \<open>
  Every call that leaves \<^verbatim>\<open>init.py\<close> is recorded, in order, in the trace of the
  process state.
\<close>

datatype event =
    Log_warning string
  | Log_debug string
  | Load_dotenv
  | Load_config
  | Print string
  | Input string
  | Set_config_value string string
  | Init_llm string
  | Set_default_model string
  | Set_auto_history bool
  | Set_history_length int
  | Read_history_file string
  | Add_history string
  | Atexit_register string
  | Register_tabcomplete
  | Init_tools

text \<open>
  The state of the process and of what it can reach:
  \<^item> \<open>init_done\<close> is the module global \<^verbatim>\<open>_init_done\<close>;
  \<^item> \<open>config_env\<close> is what \<^verbatim>\<open>get_env\<close> of the object returned by
    \<^verbatim>\<open>load_config()\<close> answers, \<open>config_store\<close> the keys written by
    \<^verbatim>\<open>set_config_value\<close>, \<open>config_path\<close> the imported constant of that name;
  \<^item> \<open>recommended_model\<close>, \<open>llm_provider\<close> and \<open>default_model\<close> belong to the modules
    \<^verbatim>\<open>llm\<close> and \<open>models\<close>;
  \<^item> \<open>tty\<close> says whether standard input and output are a terminal, \<open>stdin\<close> holds the
    lines still to be read (without their newline);
  \<^item> \<open>rl_auto_history\<close>, \<open>rl_history_length\<close> and \<open>rl_history\<close> are the state of the
    \<^verbatim>\<open>readline\<close> module: the auto-history switch, the length limit (negative: none)
    and the in-memory history list, oldest entry first;
  \<^item> \<open>history_path\<close> is the result of \<^verbatim>\<open>get_readline_history_file()\<close>, \<open>fs\<close>
    maps a path to the lines of the file there;
  \<^item> \<open>atexit\<close> lists the paths registered with
    \<^verbatim>\<open>atexit.register(readline.write_history_file, path)\<close>, oldest first.
\<close>

record world =
  init_done :: bool
  config_env :: "string \<Rightarrow> string option"
  config_store :: "string \<Rightarrow> string option"
  config_path :: string
  recommended_model :: "string \<Rightarrow> string"
  llm_provider :: "string option"
  default_model :: "string option"
  tty :: bool
  stdin :: "string list"
  rl_auto_history :: bool
  rl_history_length :: int
  rl_history :: "string list"
  history_path :: string
  fs :: "string \<Rightarrow> string list option"
  atexit :: "string list"
  trace :: "event list"

definition emit :: "event \<Rightarrow> world \<Rightarrow> world" where
  "emit e w = w\<lparr>trace := trace w @ [e]\<rparr>"

definition log_warning :: "string \<Rightarrow> world \<Rightarrow> world" where
  "log_warning s w = emit (Log_warning s) w"

definition log_debug :: "string \<Rightarrow> world \<Rightarrow> world" where
  "log_debug s w = emit (Log_debug s) w"

definition print :: "string \<Rightarrow> world \<Rightarrow> world" where
  "print s w = emit (Print s) w"

definition load_dotenv :: "world \<Rightarrow> world" where
  "load_dotenv w = emit Load_dotenv w"

text \<open>\<^verbatim>\<open>load_config()\<close> returns the config object; the model returns its \<^verbatim>\<open>get_env\<close>.\<close>

definition load_config :: "world \<Rightarrow> (string \<Rightarrow> string option) \<times> world" where
  "load_config w = (config_env w, emit Load_config w)"

definition set_config_value :: "string \<Rightarrow> string \<Rightarrow> world \<Rightarrow> world" where
  "set_config_value k v w =
     emit (Set_config_value k v) (w\<lparr>config_store := (config_store w)(k \<mapsto> v)\<rparr>)"

definition init_llm :: "string \<Rightarrow> world \<Rightarrow> world" where
  "init_llm p w = emit (Init_llm p) (w\<lparr>llm_provider := Some p\<rparr>)"

text \<open>
  Modelled from the spec: \<^verbatim>\<open>get_recommended_model\<close> of the module \<open>llm\<close> is not part of
  the source at hand. The specification describes it as the provider's built-in
  recommended default, a pure function of the provider; the source calls it without an
  argument after \<^verbatim>\<open>init_llm(provider)\<close> has stored the provider. The function itself is
  a parameter of the state.
\<close>

definition get_recommended_model :: "string \<Rightarrow> world \<Rightarrow> string" where
  "get_recommended_model p w = recommended_model w p"

definition set_default_model :: "string \<Rightarrow> world \<Rightarrow> world" where
  "set_default_model m w = emit (Set_default_model m) (w\<lparr>default_model := Some m\<rparr>)"

definition register_tabcomplete :: "world \<Rightarrow> world" where
  "register_tabcomplete w = emit Register_tabcomplete w"

definition init_tools :: "world \<Rightarrow> world" where
  "init_tools w = emit Init_tools w"

definition get_readline_history_file :: "world \<Rightarrow> string" where
  "get_readline_history_file w = history_path w"

subsection \<open>The \<^verbatim>\<open>readline\<close> module and \<^verbatim>\<open>input\<close>\<close>

definition set_auto_history :: "bool \<Rightarrow> world \<Rightarrow> world" where
  "set_auto_history b w = emit (Set_auto_history b) (w\<lparr>rl_auto_history := b\<rparr>)"

text \<open>
  \<^verbatim>\<open>readline.set_history_length(n)\<close> stores the maximal number of lines that
  \<^verbatim>\<open>write_history_file\<close> leaves in the history file; the in-memory list is untouched.
\<close>

definition set_history_length :: "int \<Rightarrow> world \<Rightarrow> world" where
  "set_history_length n w = emit (Set_history_length n) (w\<lparr>rl_history_length := n\<rparr>)"

definition add_history :: "string \<Rightarrow> world \<Rightarrow> world" where
  "add_history l w = emit (Add_history l) (w\<lparr>rl_history := rl_history w @ [l]\<rparr>)"

text \<open>
  \<^verbatim>\<open>readline.read_history_file(path)\<close> appends the lines of the file to the in-memory
  list and raises \<^verbatim>\<open>FileNotFoundError\<close> when there is no file.
\<close>

definition read_history_file :: "string \<Rightarrow> world \<Rightarrow> (error + unit) \<times> world" where
  "read_history_file path w =
     (case fs w path of
        None \<Rightarrow> (Inl FileNotFoundError, emit (Read_history_file path) w)
      | Some ls \<Rightarrow>
          (Inr (), emit (Read_history_file path) (w\<lparr>rl_history := rl_history w @ ls\<rparr>)))"

text \<open>What the length limit keeps of a history list: its last \<open>n\<close> entries.\<close>

definition truncate_history :: "int \<Rightarrow> string list \<Rightarrow> string list" where
  "truncate_history n h = (if n < 0 then h else drop (length h - nat n) h)"

text \<open>
  \<^verbatim>\<open>readline.write_history_file(path)\<close> overwrites the file with the in-memory list and
  truncates the file to the length limit.
\<close>

definition write_history_file :: "string \<Rightarrow> world \<Rightarrow> world" where
  "write_history_file path w =
     w\<lparr>fs := (fs w)(path \<mapsto> truncate_history (rl_history_length w) (rl_history w))\<rparr>"

definition atexit_register :: "string \<Rightarrow> world \<Rightarrow> world" where
  "atexit_register path w = emit (Atexit_register path) (w\<lparr>atexit := atexit w @ [path]\<rparr>)"

text \<open>Normal termination runs the registered actions, the last registered first.\<close>

definition normal_exit :: "world \<Rightarrow> world" where
  "normal_exit w = foldl (\<lambda>v path. write_history_file path v) w (rev (atexit w))"

text \<open>
  With \<^verbatim>\<open>readline\<close> imported (line 3 of the source) and a terminal, \<^verbatim>\<open>input\<close> reads
  through readline: when auto-history is on, a non-empty line that differs from the
  newest entry is appended to the in-memory list.
\<close>

definition auto_add_history :: "string \<Rightarrow> world \<Rightarrow> world" where
  "auto_add_history l w =
     (if tty w \<and> rl_auto_history w \<and> l \<noteq> [] \<and> (rl_history w = [] \<or> last (rl_history w) \<noteq> l)
      then w\<lparr>rl_history := rl_history w @ [l]\<rparr> else w)"

text \<open>\<^verbatim>\<open>input(prompt)\<close> takes the next line, or raises \<^verbatim>\<open>EOFError\<close> at end of input.\<close>

definition input :: "string \<Rightarrow> world \<Rightarrow> (error + string) \<times> world" where
  "input prompt w =
     (case stdin w of
        [] \<Rightarrow> (Inl EOFError, emit (Input prompt) w)
      | l # ls \<Rightarrow> (Inr l, auto_add_history l (emit (Input prompt) (w\<lparr>stdin := ls\<rparr>))))"

section \<open>The source: \<^verbatim>\<open>gptme/init.py\<close>\<close>

definition PROVIDERS :: "string list" where
  "PROVIDERS = [''openai'', ''anthropic'', ''azure'', ''local'']"

definition history_examples :: "string list" where
  "history_examples =
     [''What is love?'',
      ''Have you heard about an open-source app called ActivityWatch?'',
      ''Explain 'Attention is All You Need' in the style of Andrej Karpathy.'',
      ''Explain how public-key cryptography works as if I'm five.'',
      ''Write a Python script that prints the first 100 prime numbers.'',
      ''Find all TODOs in the current git project'']"

text \<open>\<^verbatim>\<open>_load_readline_history\<close> (lines 88 to 101).\<close>

definition load_readline_history :: "world \<Rightarrow> (error + unit) \<times> world" where
  "load_readline_history w =
     (let w1 = log_debug ''Loading history'' w;
          w2 = set_auto_history True w1;
          w3 = set_history_length 100 w2;
          history_file = get_readline_history_file w3
      in case read_history_file history_file w3 of
           (Inr u, w4) \<Rightarrow> (Inr (), atexit_register history_file w4)
         | (Inl FileNotFoundError, w4) \<Rightarrow>
             (Inr (), atexit_register history_file
                        (foldl (\<lambda>v line. add_history line v) w4 history_examples))
         | (Inl e, w4) \<Rightarrow> (Inl e, w4))"

definition guidance :: string where
  "guidance = ''You can get one at:'' @ [CHR 0x0A] @
     '' - OpenAI: https://platform.openai.com/account/api-keys'' @ [CHR 0x0A] @
     '' - Anthropic: https://console.anthropic.com/settings/keys'' @ [CHR 0x0A] @ '' ''"

text \<open>\<^verbatim>\<open>ask_for_api_key\<close> (lines 104 to 126).\<close>

definition ask_for_api_key :: "world \<Rightarrow> (error + string \<times> string) \<times> world" where
  "ask_for_api_key w =
     (let w1 = print ''No API key set for OpenAI or Anthropic.'' w;
          w2 = print guidance w1
      in case input ''Your OpenAI or Anthropic API key: '' w2 of
           (Inl e, w3) \<Rightarrow> (Inl e, w3)
         | (Inr line, w3) \<Rightarrow>
             (let api_key = strip line;
                  (provider, env_var) =
                    (if startswith api_key ''sk-ant-''
                     then (''anthropic'', ''ANTHROPIC_API_KEY'')
                     else (''openai'', ''OPENAI_API_KEY''));
                  w4 = set_config_value (''env.'' @ env_var) api_key w3;
                  w5 = print (''API key saved to config at '' @ config_path w4) w4
              in (Inr (provider, api_key), w5)))"

text \<open>
  The provider resolution of \<^verbatim>\<open>init\<close> (lines 34 to 47): the value of the variable
  \<^verbatim>\<open>provider\<close> when line 50 is reached.
\<close>

definition resolve_provider ::
  "string option \<Rightarrow> bool \<Rightarrow> (string \<Rightarrow> string option) \<Rightarrow> world \<Rightarrow> (error + string option) \<times> world"
where
  "resolve_provider provider interactive config w =
     (let provider1 = (if \<not> truthy provider then config ''PROVIDER'' else provider)
      in if \<not> truthy provider1 then
           (if truthy (config ''OPENAI_API_KEY'') then
              (Inr (Some ''openai''), print ''Found OpenAI API key, using OpenAI provider'' w)
            else if truthy (config ''ANTHROPIC_API_KEY'') then
              (Inr (Some ''anthropic''),
               print ''Found Anthropic API key, using Anthropic provider'' w)
            else if interactive then
              (case ask_for_api_key w of
                 (Inl e, w1) \<Rightarrow> (Inl e, w1)
               | (Inr (p, k), w1) \<Rightarrow> (Inr (Some p), w1))
            else (Inr provider1, w))
         else (Inr provider1, w))"

text \<open>Python's \<^verbatim>\<open>a or b\<close> for an optional string \<open>a\<close>: \<open>a\<close> when it is truthy, else \<open>b\<close>.\<close>

definition or_else :: "string option \<Rightarrow> string \<Rightarrow> string" where
  "or_else a b = (case a of None \<Rightarrow> b | Some v \<Rightarrow> if v = [] then b else v)"

text \<open>
  The model selection of \<^verbatim>\<open>init\<close> (lines 56 and 57): the value of the variable
  \<^verbatim>\<open>model\<close> when line 58 is reached.
\<close>

definition select_model ::
  "string option \<Rightarrow> (string \<Rightarrow> string option) \<Rightarrow> string \<Rightarrow> world \<Rightarrow> string"
where
  "select_model model config provider w =
     (case model of
        None \<Rightarrow> or_else (config ''MODEL'') (get_recommended_model provider w)
      | Some m \<Rightarrow>
          if m = [] then or_else (config ''MODEL'') (get_recommended_model provider w)
          else m)"

text \<open>Lines 53 to 66 of \<^verbatim>\<open>init\<close>, for the truthy provider that passed line 50.\<close>

definition bootstrap ::
  "string \<Rightarrow> string option \<Rightarrow> bool \<Rightarrow> (string \<Rightarrow> string option) \<Rightarrow> world \<Rightarrow> (error + unit) \<times> world"
where
  "bootstrap provider model interactive config w =
     (let w1 = init_llm provider w;
          w2 = set_default_model (select_model model config provider w1) w1
      in if interactive then
           (case load_readline_history w2 of
              (Inl e, w3) \<Rightarrow> (Inl e, w3)
            | (Inr u, w3) \<Rightarrow> (Inr (), init_tools (register_tabcomplete w3)))
         else (Inr (), init_tools w2))"

text \<open>\<^verbatim>\<open>init\<close> (lines 20 to 66).\<close>

definition no_provider :: string where
  "no_provider = ''No API key found, couldn't auto-detect provider''"

definition init ::
  "string option \<Rightarrow> string option \<Rightarrow> bool \<Rightarrow> world \<Rightarrow> (error + unit) \<times> world"
where
  "init provider model interactive w =
     (if init_done w then (Inr (), log_warning ''init() called twice, ignoring'' w)
      else
        (let w1 = load_dotenv (log_debug ''Started'' (w\<lparr>init_done := True\<rparr>));
             (config, w2) = load_config w1
         in case resolve_provider provider interactive config w2 of
              (Inl e, w3) \<Rightarrow> (Inl e, w3)
            | (Inr None, w3) \<Rightarrow> (Inl (ValueError no_provider), w3)
            | (Inr (Some p), w3) \<Rightarrow>
                if p = [] then (Inl (ValueError no_provider), w3)
                else bootstrap p model interactive config w3))"

text \<open>
  A process that has just imported the module: \<^verbatim>\<open>_init_done\<close> is false (line 15),
  readline has its defaults (auto-history on, no length limit, an empty list), nothing is
  registered for exit. The arguments are the answers of the config, whether there is a
  terminal, the lines waiting on standard input and the history file, if there is one.
\<close>

definition fresh_process ::
  "(string \<Rightarrow> string option) \<Rightarrow> bool \<Rightarrow> string list \<Rightarrow> string list option \<Rightarrow> world"
where
  "fresh_process cfg is_tty lines hist =
     \<lparr>init_done = False, config_env = cfg, config_store = Map.empty,
      config_path = ''config.toml'', recommended_model = (\<lambda>p. ''recommended-'' @ p),
      llm_provider = None, default_model = None, tty = is_tty, stdin = lines,
      rl_auto_history = True, rl_history_length = - 1, rl_history = [],
      history_path = ''history'',
      fs = (case hist of None \<Rightarrow> Map.empty | Some ls \<Rightarrow> [''history'' \<mapsto> ls]),
      atexit = [], trace = []\<rparr>"

section \<open>Auxiliary notions for the properties\<close>

text \<open>
  The state in which a first call of \<^verbatim>\<open>init\<close> reaches line 34: the flag is set, the
  debug line is logged, \<^verbatim>\<open>load_dotenv\<close> and \<^verbatim>\<open>load_config\<close> have run (lines 25 to 31).
\<close>

definition started :: "world \<Rightarrow> world" where
  "started w = snd (load_config (load_dotenv (log_debug ''Started'' (w\<lparr>init_done := True\<rparr>))))"

text \<open>What \<open>load_readline_history\<close> appends to the in-memory list.\<close>

definition loaded_entries :: "world \<Rightarrow> string list" where
  "loaded_entries w =
     (case fs w (history_path w) of None \<Rightarrow> history_examples | Some ls \<Rightarrow> ls)"

text \<open>The calls \<open>load_readline_history\<close> makes, in order.\<close>

definition history_events :: "world \<Rightarrow> event list" where
  "history_events w =
     [Log_debug ''Loading history'', Set_auto_history True, Set_history_length 100,
      Read_history_file (history_path w)] @
     (case fs w (history_path w) of
        None \<Rightarrow> map Add_history history_examples | Some ls \<Rightarrow> []) @
     [Atexit_register (history_path w)]"

text \<open>The values written to the config along a trace.\<close>

fun written_values :: "event list \<Rightarrow> string list" where
  "written_values [] = []"
| "written_values (Set_config_value k v # es) = v # written_values es"
| "written_values (e # es) = written_values es"

text \<open>The models handed to \<^verbatim>\<open>set_default_model\<close> along a trace.\<close>

fun written_models :: "event list \<Rightarrow> string list" where
  "written_models [] = []"
| "written_models (Set_default_model v # es) = v # written_models es"
| "written_models (e # es) = written_models es"

text \<open>The number of lines read along a trace.\<close>

fun inputs_read :: "event list \<Rightarrow> nat" where
  "inputs_read [] = 0"
| "inputs_read (Input q # es) = Suc (inputs_read es)"
| "inputs_read (e # es) = inputs_read es"

text \<open>
  What readline records of the lines entered one after the other at the terminal during
  the session.
\<close>

definition record_inputs :: "string list \<Rightarrow> world \<Rightarrow> world" where
  "record_inputs ls w = foldl (\<lambda>v l. auto_add_history l v) w ls"

text \<open>Sample entries, pairwise different: entry \<open>n\<close> is \<open>n + 1\<close> times the letter x.\<close>

definition entries :: "nat \<Rightarrow> nat \<Rightarrow> string list" where
  "entries a b = map (\<lambda>n. replicate (Suc n) (CHR ''x'')) [a..<b]"

section \<open>Basic facts about the operations\<close>

lemmas ops_defs = emit_def log_warning_def log_debug_def print_def load_dotenv_def
  load_config_def set_config_value_def init_llm_def get_recommended_model_def
  set_default_model_def register_tabcomplete_def init_tools_def get_readline_history_file_def
  set_auto_history_def set_history_length_def read_history_file_def
  atexit_register_def

lemmas eval_defs = init_def resolve_provider_def bootstrap_def ask_for_api_key_def
  load_readline_history_def select_model_def or_else_def truthy_def fresh_process_def
  ops_defs input_def auto_add_history_def add_history_def strip_def startswith_def
  isspace_def Let_def

lemmas run_defs = eval_defs started_def normal_exit_def write_history_file_def
  truncate_history_def no_provider_def

lemma foldl_add_history:
  "foldl (\<lambda>v line. add_history line v) w xs =
     w\<lparr>rl_history := rl_history w @ xs, trace := trace w @ map Add_history xs\<rparr>"
  by (induction xs arbitrary: w) (simp_all add: add_history_def emit_def)

lemma load_readline_history_eq:
  "load_readline_history w =
     (Inr (), w\<lparr>rl_auto_history := True, rl_history_length := 100,
        rl_history := rl_history w @ loaded_entries w,
        atexit := atexit w @ [history_path w],
        trace := trace w @ history_events w\<rparr>)"
  by (simp add: load_readline_history_def loaded_entries_def history_events_def ops_defs
      foldl_add_history Let_def split: option.splits)

subsection \<open>The flag stays set\<close>

lemma init_done_ask: "init_done (snd (ask_for_api_key w)) = init_done w"
  by (simp add: ask_for_api_key_def ops_defs input_def auto_add_history_def Let_def
      split: list.splits prod.splits sum.splits)

lemma init_done_resolve:
  "init_done (snd (resolve_provider p i cfg w)) = init_done w"
proof -
  obtain r w1 where r: "ask_for_api_key w = (r, w1)"
    by (cases "ask_for_api_key w")
  have "init_done w1 = init_done w"
    using init_done_ask [of w] r by simp
  then show ?thesis
    using r by (simp add: resolve_provider_def print_def emit_def Let_def
        split: prod.splits sum.splits)
qed

lemma init_done_bootstrap:
  "init_done (snd (bootstrap s m i cfg w)) = init_done w"
  by (simp add: bootstrap_def load_readline_history_eq init_llm_def set_default_model_def
      init_tools_def register_tabcomplete_def emit_def Let_def)

lemma init_done_init: "init_done (snd (init p m i w))"
proof (cases "init_done w")
  case True
  then show ?thesis by (simp add: init_def log_warning_def emit_def)
next
  case False
  let ?w2 = "emit Load_config (load_dotenv (log_debug ''Started'' (w\<lparr>init_done := True\<rparr>)))"
  have d: "init_done ?w2" by (simp add: load_dotenv_def log_debug_def emit_def)
  obtain r w3 where r: "resolve_provider p i (config_env w) ?w2 = (r, w3)"
    by (cases "resolve_provider p i (config_env w) ?w2")
  have d3: "init_done w3"
    using init_done_resolve [of p i "config_env w" ?w2] d r by simp
  have cfg: "config_env (load_dotenv (log_debug ''Started'' (w\<lparr>init_done := True\<rparr>))) = config_env w"
    by (simp add: load_dotenv_def log_debug_def emit_def)
  show ?thesis
    using False r d3 init_done_bootstrap [of _ m i "config_env w" w3]
    by (simp add: init_def load_config_def cfg Let_def split: sum.splits option.splits)
qed

subsection \<open>The first call\<close>

lemma started_eq:
  "started w = w\<lparr>init_done := True,
     trace := trace w @ [Log_debug ''Started'', Load_dotenv, Load_config]\<rparr>"
  by (simp add: started_def ops_defs)

lemma config_env_started [simp]: "config_env (started w) = config_env w"
  by (simp add: started_eq)

lemma init_first:
  "\<not> init_done w \<Longrightarrow>
   init p m i w =
     (case resolve_provider p i (config_env w) (started w) of
        (Inl e, w3) \<Rightarrow> (Inl e, w3)
      | (Inr None, w3) \<Rightarrow> (Inl (ValueError no_provider), w3)
      | (Inr (Some s), w3) \<Rightarrow>
          if s = [] then (Inl (ValueError no_provider), w3)
          else bootstrap s m i (config_env w) w3)"
proof -
  assume "\<not> init_done w"
  moreover have "config_env (load_dotenv (log_debug ''Started'' (w\<lparr>init_done := True\<rparr>))) =
      config_env w"
    by (simp add: load_dotenv_def log_debug_def emit_def)
  ultimately show ?thesis
    by (simp add: init_def started_def load_config_def Let_def split: prod.splits sum.splits option.splits)
qed

subsection \<open>The credential prompt\<close>

lemma ask_for_api_key_provider:
  "ask_for_api_key w = (Inr (s, k), w') \<Longrightarrow> s = ''anthropic'' \<or> s = ''openai''"
  by (auto simp: ask_for_api_key_def Let_def split: prod.splits sum.splits if_splits)

lemma ask_stdin:
  "stdin w = l # ls \<Longrightarrow> stdin (snd (ask_for_api_key w)) = ls"
  by (simp add: ask_for_api_key_def ops_defs input_def auto_add_history_def Let_def
      split: prod.splits)

lemma ask_result:
  "stdin w = l # ls \<Longrightarrow>
   fst (ask_for_api_key w) =
     Inr (if startswith (strip l) ''sk-ant-'' then ''anthropic'' else ''openai'', strip l)"
  by (simp add: ask_for_api_key_def ops_defs input_def auto_add_history_def Let_def
      split: prod.splits)

lemma ask_config_store:
  "stdin w = l # ls \<Longrightarrow>
   config_store (snd (ask_for_api_key w)) =
     (config_store w)(''env.'' @ (if startswith (strip l) ''sk-ant-'' then ''ANTHROPIC_API_KEY''
        else ''OPENAI_API_KEY'') \<mapsto> strip l)"
  by (simp add: ask_for_api_key_def ops_defs input_def auto_add_history_def Let_def
      split: prod.splits)

lemma ask_trace:
  "stdin w = l # ls \<Longrightarrow>
   trace (snd (ask_for_api_key w)) = trace w @
     [Print ''No API key set for OpenAI or Anthropic.'', Print guidance,
      Input ''Your OpenAI or Anthropic API key: '',
      Set_config_value (''env.'' @ (if startswith (strip l) ''sk-ant-'' then ''ANTHROPIC_API_KEY''
        else ''OPENAI_API_KEY'')) (strip l),
      Print (''API key saved to config at '' @ config_path w)]"
  by (simp add: ask_for_api_key_def ops_defs input_def auto_add_history_def Let_def
      split: prod.splits)

lemma ask_eof:
  "stdin w = [] \<Longrightarrow>
   ask_for_api_key w = (Inl EOFError, w\<lparr>trace := trace w @
     [Print ''No API key set for OpenAI or Anthropic.'', Print guidance,
      Input ''Your OpenAI or Anthropic API key: '']\<rparr>)"
  by (simp add: ask_for_api_key_def ops_defs input_def Let_def)

lemma strip_clean:
  "l = [] \<or> (\<not> isspace (hd l) \<and> \<not> isspace (last l)) \<Longrightarrow> strip l = l"
proof (cases l)
  case Nil
  then show ?thesis by (simp add: strip_def)
next
  case (Cons c cs)
  assume "l = [] \<or> (\<not> isspace (hd l) \<and> \<not> isspace (last l))"
  with Cons have h: "\<not> isspace c" and t: "\<not> isspace (last l)" by simp_all
  from h Cons have 1: "dropWhile isspace l = l" by simp
  from Cons have "rev l \<noteq> []" by simp
  then obtain d ds where r: "rev l = d # ds" by (cases "rev l") auto
  then have "d = last l" using Cons by (metis hd_rev list.sel(1) list.distinct(1))
  with t have "dropWhile isspace (d # ds) = d # ds" by simp
  then have 2: "dropWhile isspace (rev l) = rev l" unfolding r .
  show ?thesis unfolding strip_def 1 2 by simp
qed

lemma written_values_append: "written_values (xs @ ys) = written_values xs @ written_values ys"
  by (induction xs rule: written_values.induct) simp_all

lemma inputs_read_append: "inputs_read (xs @ ys) = inputs_read xs + inputs_read ys"
  by (induction xs rule: inputs_read.induct) simp_all

subsection \<open>After the provider is known\<close>

lemma select_model_frame:
  "recommended_model w' = recommended_model w \<Longrightarrow>
   select_model m cfg s w' = select_model m cfg s w"
  by (simp add: select_model_def get_recommended_model_def split: option.splits)

lemma select_model_init_llm [simp]:
  "select_model m cfg s (init_llm s' w) = select_model m cfg s w"
  by (rule select_model_frame) (simp add: init_llm_def emit_def)

lemma bootstrap_ok: "fst (bootstrap s m i cfg w) = Inr ()"
  by (simp add: bootstrap_def load_readline_history_eq Let_def)

lemma bootstrap_llm_provider: "llm_provider (snd (bootstrap s m i cfg w)) = Some s"
  by (simp add: bootstrap_def load_readline_history_eq Let_def init_tools_def
      register_tabcomplete_def set_default_model_def init_llm_def emit_def)


lemma bootstrap_trace:
  "trace (snd (bootstrap s m i cfg w)) =
     trace w @ [Init_llm s, Set_default_model (select_model m cfg s w)] @
     (if i then history_events w @ [Register_tabcomplete] else []) @ [Init_tools]"
proof -
  have t: "trace (init_llm s w) = trace w @ [Init_llm s]"
    by (simp add: init_llm_def emit_def)
  have h: "history_events (set_default_model x (init_llm s w)) = history_events w" for x
    by (simp add: history_events_def set_default_model_def init_llm_def emit_def)
  show ?thesis
    by (simp add: bootstrap_def load_readline_history_eq Let_def init_tools_def
        register_tabcomplete_def h) (simp add: set_default_model_def emit_def t)
qed


lemma written_models_Add_history [simp]: "written_models (map Add_history xs) = []"
  by (induction xs) simp_all


subsection \<open>The history list and the history file\<close>

lemma write_history_file_other [simp]:
  "rl_history (write_history_file q w) = rl_history w"
  "rl_history_length (write_history_file q w) = rl_history_length w"
  by (simp_all add: write_history_file_def)

lemma foldl_write_history_file:
  "fs (foldl (\<lambda>v path. write_history_file path v) w ps) p =
     (if p \<in> set ps then Some (truncate_history (rl_history_length w) (rl_history w))
      else fs w p)"
proof (induction ps arbitrary: w)
  case Nil
  then show ?case by simp
next
  case (Cons q ps)
  show ?case
    by (simp add: Cons.IH) (simp add: write_history_file_def)
qed

lemma normal_exit_fs:
  "p \<in> set (atexit w) \<Longrightarrow>
   fs (normal_exit w) p = Some (truncate_history (rl_history_length w) (rl_history w))"
  by (simp add: normal_exit_def foldl_write_history_file)

lemma record_inputs_frame:
  "rl_history_length (record_inputs ls w) = rl_history_length w"
  "atexit (record_inputs ls w) = atexit w"
  "history_path (record_inputs ls w) = history_path w"
  by (induction ls arbitrary: w) (simp_all add: record_inputs_def auto_add_history_def)

lemma auto_add_history_frame [simp]:
  "tty (auto_add_history l w) = tty w"
  "rl_auto_history (auto_add_history l w) = rl_auto_history w"
  by (simp_all add: auto_add_history_def)

lemma record_inputs_append:
  "tty w \<Longrightarrow> rl_auto_history w \<Longrightarrow> [] \<notin> set ls \<Longrightarrow> distinct_adj ls \<Longrightarrow>
   rl_history w = [] \<or> ls = [] \<or> last (rl_history w) \<noteq> hd ls \<Longrightarrow>
   rl_history (record_inputs ls w) = rl_history w @ ls"
proof (induction ls arbitrary: w)
  case Nil
  then show ?case by (simp add: record_inputs_def)
next
  case (Cons l ls)
  let ?v = "auto_add_history l w"
  from Cons.prems have h: "rl_history ?v = rl_history w @ [l]"
    by (auto simp: auto_add_history_def)
  have "rl_history (record_inputs ls ?v) = rl_history ?v @ ls"
  proof (rule Cons.IH)
    show "tty ?v" "rl_auto_history ?v" using Cons.prems by simp_all
    show "[] \<notin> set ls" using Cons.prems by simp
    show "distinct_adj ls" using Cons.prems by (auto simp: distinct_adj_Cons)
    show "rl_history ?v = [] \<or> ls = [] \<or> last (rl_history ?v) \<noteq> hd ls"
      using Cons.prems by (auto simp: h distinct_adj_Cons)
  qed
  then show ?case by (simp add: record_inputs_def h)
qed

lemma entries_distinct_adj: "distinct_adj (entries a b)"
proof -
  have "inj (\<lambda>n. replicate (Suc n) (CHR ''x''))"
    by (rule injI) (metis length_replicate nat.inject)
  then have "distinct (entries a b)"
    by (simp add: entries_def distinct_map inj_on_def)
  then show ?thesis by (simp add: distinct_adj_altdef remdups_adj_distinct)
qed

lemma entries_nonempty: "[] \<notin> set (entries a b)"
  by (auto simp: entries_def)

lemma length_entries: "length (entries a b) = b - a"
  by (simp add: entries_def)

lemma drop_entries: "drop n (entries a b) = entries (a + n) b"
  by (simp add: entries_def drop_map)

section \<open>Provider resolution\<close>

text \<open>
  C1, as amended. In a first call of \<^verbatim>\<open>init\<close> the provider is, in this order: the
  explicit argument when it is a non-empty string; else the config value \<open>PROVIDER\<close> when
  it is present and non-empty; else \<open>openai\<close> when the config holds a non-empty
  \<open>OPENAI_API_KEY\<close>; else \<open>anthropic\<close> when it holds a non-empty
  \<open>ANTHROPIC_API_KEY\<close>; else, when \<open>interactive\<close> is set, the provider the credential
  prompt returns (or the prompt's own error); else the call raises the configuration
  error. The rest of \<^verbatim>\<open>init\<close> then runs with that provider (\<open>bootstrap\<close>).
\<close>

theorem init_provider_precedence:
  assumes "\<not> init_done w"
  shows
   "(s \<noteq> [] \<longrightarrow> init (Some s) m i w = bootstrap s m i (config_env w) (started w))
  \<and> (\<not> truthy p \<and> config_env w ''PROVIDER'' = Some c \<and> c \<noteq> [] \<longrightarrow>
       init p m i w = bootstrap c m i (config_env w) (started w))
  \<and> (\<not> truthy p \<and> \<not> truthy (config_env w ''PROVIDER'') \<and>
      truthy (config_env w ''OPENAI_API_KEY'') \<longrightarrow>
       init p m i w = bootstrap ''openai'' m i (config_env w)
         (print ''Found OpenAI API key, using OpenAI provider'' (started w)))
  \<and> (\<not> truthy p \<and> \<not> truthy (config_env w ''PROVIDER'') \<and>
      \<not> truthy (config_env w ''OPENAI_API_KEY'') \<and>
      truthy (config_env w ''ANTHROPIC_API_KEY'') \<longrightarrow>
       init p m i w = bootstrap ''anthropic'' m i (config_env w)
         (print ''Found Anthropic API key, using Anthropic provider'' (started w)))
  \<and> (\<not> truthy p \<and> \<not> truthy (config_env w ''PROVIDER'') \<and>
      \<not> truthy (config_env w ''OPENAI_API_KEY'') \<and>
      \<not> truthy (config_env w ''ANTHROPIC_API_KEY'') \<and> i \<longrightarrow>
       init p m i w =
         (case ask_for_api_key (started w) of
            (Inl e, w1) \<Rightarrow> (Inl e, w1)
          | (Inr (a, k), w1) \<Rightarrow> bootstrap a m i (config_env w) w1))
  \<and> (\<not> truthy p \<and> \<not> truthy (config_env w ''PROVIDER'') \<and>
      \<not> truthy (config_env w ''OPENAI_API_KEY'') \<and>
      \<not> truthy (config_env w ''ANTHROPIC_API_KEY'') \<and> \<not> i \<longrightarrow>
       init p m i w = (Inl (ValueError no_provider), started w))"
proof -
  have ask: "(case ask_for_api_key (started w) of
            (Inl e, w1) \<Rightarrow> (Inl e, w1)
          | (Inr (s, k), w1) \<Rightarrow> (if s = [] then (Inl (ValueError no_provider), w1)
               else bootstrap s m i (config_env w) w1)) =
        (case ask_for_api_key (started w) of
            (Inl e, w1) \<Rightarrow> (Inl e, w1)
          | (Inr (s, k), w1) \<Rightarrow> bootstrap s m i (config_env w) w1)"
    using ask_for_api_key_provider [of "started w"]
    by (auto split: prod.splits sum.splits)
  show ?thesis
    using assms ask
    by (auto simp: init_first resolve_provider_def truthy_def Let_def
        split: option.splits prod.splits sum.splits)
qed

text \<open>
  Each level at a concrete process: the explicit argument wins over the config, the config
  value over a stored key, an OpenAI key over an Anthropic key, a lone Anthropic key, the
  prompt, and the failure.
\<close>

theorem init_provider_precedence_witness:
  "\<not> init_done (fresh_process [''PROVIDER'' \<mapsto> ''openai'', ''OPENAI_API_KEY'' \<mapsto> ''sk-1''] False [] None)
 \<and> llm_provider (snd (init (Some ''anthropic'') None False
      (fresh_process [''PROVIDER'' \<mapsto> ''openai'', ''OPENAI_API_KEY'' \<mapsto> ''sk-1''] False [] None)))
     = Some ''anthropic''
 \<and> llm_provider (snd (init None None False
      (fresh_process [''PROVIDER'' \<mapsto> ''azure'', ''OPENAI_API_KEY'' \<mapsto> ''sk-1''] False [] None)))
     = Some ''azure''
 \<and> llm_provider (snd (init None None False
      (fresh_process [''OPENAI_API_KEY'' \<mapsto> ''sk-1'', ''ANTHROPIC_API_KEY'' \<mapsto> ''sk-ant-1'']
         False [] None))) = Some ''openai''
 \<and> llm_provider (snd (init None None False
      (fresh_process [''ANTHROPIC_API_KEY'' \<mapsto> ''sk-ant-1''] False [] None))) = Some ''anthropic''
 \<and> llm_provider (snd (init None None True
      (fresh_process Map.empty True [''sk-ant-abc123''] None))) = Some ''anthropic''
 \<and> init None None False (fresh_process Map.empty False [] None) =
     (Inl (ValueError no_provider), started (fresh_process Map.empty False [] None))"
proof -
  let ?w1 = "fresh_process [''PROVIDER'' \<mapsto> ''openai'', ''OPENAI_API_KEY'' \<mapsto> ''sk-1''] False [] None"
  let ?w2 = "fresh_process [''PROVIDER'' \<mapsto> ''azure'', ''OPENAI_API_KEY'' \<mapsto> ''sk-1''] False [] None"
  let ?w3 = "fresh_process [''OPENAI_API_KEY'' \<mapsto> ''sk-1'', ''ANTHROPIC_API_KEY'' \<mapsto> ''sk-ant-1'']
         False [] None"
  let ?w4 = "fresh_process [''ANTHROPIC_API_KEY'' \<mapsto> ''sk-ant-1''] False [] None"
  let ?w5 = "fresh_process Map.empty True [''sk-ant-abc123''] None"
  let ?w6 = "fresh_process Map.empty False [] None"
  have f: "\<not> init_done ?w1" "\<not> init_done ?w2" "\<not> init_done ?w3" "\<not> init_done ?w4"
    "\<not> init_done ?w5" "\<not> init_done ?w6"
    by (simp_all add: fresh_process_def)
  have 1: "init (Some ''anthropic'') None False ?w1 =
      bootstrap ''anthropic'' None False (config_env ?w1) (started ?w1)"
    using init_provider_precedence [OF f(1), of "''anthropic''" None False] by simp
  have 2: "init None None False ?w2 = bootstrap ''azure'' None False (config_env ?w2) (started ?w2)"
    using init_provider_precedence [OF f(2), of _ None False None "''azure''"]
    by (simp add: truthy_def fresh_process_def)
  have 3: "init None None False ?w3 = bootstrap ''openai'' None False (config_env ?w3)
      (print ''Found OpenAI API key, using OpenAI provider'' (started ?w3))"
    using init_provider_precedence [OF f(3), of _ None False None]
    by (simp add: truthy_def fresh_process_def)
  have 4: "init None None False ?w4 = bootstrap ''anthropic'' None False (config_env ?w4)
      (print ''Found Anthropic API key, using Anthropic provider'' (started ?w4))"
    using init_provider_precedence [OF f(4), of _ None False None]
    by (simp add: truthy_def fresh_process_def)
  have 5: "init None None True ?w5 =
      (case ask_for_api_key (started ?w5) of
            (Inl e, w1) \<Rightarrow> (Inl e, w1)
          | (Inr (a, k), w1) \<Rightarrow> bootstrap a None True (config_env ?w5) w1)"
    using init_provider_precedence [OF f(5), of _ None True None]
    by (simp add: truthy_def fresh_process_def)
  have 6: "init None None False ?w6 = (Inl (ValueError no_provider), started ?w6)"
    using init_provider_precedence [OF f(6), of _ None False None]
    by (simp add: truthy_def fresh_process_def)
  have a: "fst (ask_for_api_key (started ?w5)) = Inr (''anthropic'', ''sk-ant-abc123'')"
    by (simp add: run_defs)
  obtain v where "ask_for_api_key (started ?w5) = (Inr (''anthropic'', ''sk-ant-abc123''), v)"
    using a by (cases "ask_for_api_key (started ?w5)") simp
  then have r5: "llm_provider (snd (init None None True ?w5)) = Some ''anthropic''"
    by (simp add: 5 bootstrap_llm_provider)
  show ?thesis
    using f(1) r5 by (simp add: 1 2 3 4 6 bootstrap_llm_provider)
qed

text \<open>
  The claim as stated fails for an explicit argument that is the empty string: line 34
  tests \<^verbatim>\<open>not provider\<close>, so the empty string counts as no argument and the config
  value is taken.
\<close>

theorem explicit_empty_provider_falls_through:
  "llm_provider (snd (init (Some '''') None False
      (fresh_process [''PROVIDER'' \<mapsto> ''azure''] False [] None))) = Some ''azure''
 \<and> llm_provider (snd (init (Some '''') None False
      (fresh_process [''PROVIDER'' \<mapsto> ''azure''] False [] None))) \<noteq> Some ''''
 \<and> fst (init (Some '''') None False
      (fresh_process [''PROVIDER'' \<mapsto> ''azure''] False [] None)) = Inr ()"
  by (simp add: run_defs)

text \<open>
  C10. \<^verbatim>\<open>init\<close> never compares the provider with \<open>PROVIDERS\<close>: every non-empty string
  given as the explicit argument, or found as the config value \<open>PROVIDER\<close> when there is
  no explicit argument, is adopted as it is. The configuration error is not raised, the
  string is handed to \<^verbatim>\<open>init_llm\<close> and the call completes, whether or not the string
  is one of the four known providers.
\<close>

theorem init_adopts_unvalidated_provider:
  assumes "\<not> init_done w" and "s \<noteq> []"
  shows "init (Some s) m i w = bootstrap s m i (config_env w) (started w)
       \<and> (\<not> truthy p \<and> config_env w ''PROVIDER'' = Some s \<longrightarrow>
            init p m i w = bootstrap s m i (config_env w) (started w))
       \<and> fst (bootstrap s m i (config_env w) (started w)) = Inr ()
       \<and> llm_provider (snd (bootstrap s m i (config_env w) (started w))) = Some s
       \<and> Init_llm s \<in> set (trace (snd (bootstrap s m i (config_env w) (started w))))"
proof -
  have 1: "init (Some s) m i w = bootstrap s m i (config_env w) (started w)"
    using assms by (simp add: init_first resolve_provider_def truthy_def)
  have 2: "\<not> truthy p \<and> config_env w ''PROVIDER'' = Some s \<longrightarrow>
            init p m i w = bootstrap s m i (config_env w) (started w)"
    using assms by (simp add: init_first resolve_provider_def truthy_def)
  have 3: "Init_llm s \<in> set (trace (snd (bootstrap s m i (config_env w) (started w))))"
    by (simp add: bootstrap_trace)
  show ?thesis
    using 1 2 3 by (simp add: bootstrap_ok bootstrap_llm_provider)
qed

text \<open>
  A string outside \<open>PROVIDERS\<close>, once as the argument and once as the config value.
\<close>

theorem init_adopts_unvalidated_provider_witness:
  "''bogus'' \<notin> set PROVIDERS
 \<and> \<not> init_done (fresh_process [''PROVIDER'' \<mapsto> ''bogus''] False [] None)
 \<and> fst (init (Some ''bogus'') None False (fresh_process Map.empty False [] None)) = Inr ()
 \<and> llm_provider (snd (init (Some ''bogus'') None False (fresh_process Map.empty False [] None)))
     = Some ''bogus''
 \<and> fst (init None None False (fresh_process [''PROVIDER'' \<mapsto> ''bogus''] False [] None)) = Inr ()
 \<and> llm_provider (snd (init None None False
       (fresh_process [''PROVIDER'' \<mapsto> ''bogus''] False [] None))) = Some ''bogus''"
proof -
  let ?v = "fresh_process Map.empty False [] None"
  let ?w = "fresh_process [''PROVIDER'' \<mapsto> ''bogus''] False [] None"
  have f: "\<not> init_done ?v" "\<not> init_done ?w" by (simp_all add: fresh_process_def)
  have n: "''bogus'' \<noteq> ([] :: string)" by simp
  have c: "config_env ?w ''PROVIDER'' = Some ''bogus''" by (simp add: fresh_process_def)
  have b: "''bogus'' \<notin> set PROVIDERS" by (simp add: PROVIDERS_def)
  show ?thesis
    using init_adopts_unvalidated_provider [OF f(1) n, of None False None]
      init_adopts_unvalidated_provider [OF f(2) n, of None False None] f c b
    by (simp add: truthy_def)
qed

section \<open>Failure of the resolution\<close>

text \<open>
  C4. Called in a fresh process with no explicit provider and \<open>interactive\<close> false,
  with a config that holds neither \<open>PROVIDER\<close> nor \<open>OPENAI_API_KEY\<close> nor
  \<open>ANTHROPIC_API_KEY\<close>, \<^verbatim>\<open>init\<close> raises \<^verbatim>\<open>ValueError\<close>. The state it leaves is
  the one it found with the flag set and the three calls of lines 28 to 31 in the trace:
  no \<^verbatim>\<open>init_llm\<close>, no model selection, no history and no tool initialisation.
\<close>

theorem init_no_provider_fails:
  assumes "\<not> init_done w"
    and "config_env w ''PROVIDER'' = None"
    and "config_env w ''OPENAI_API_KEY'' = None"
    and "config_env w ''ANTHROPIC_API_KEY'' = None"
  shows "init None m False w =
     (Inl (ValueError no_provider),
      w\<lparr>init_done := True,
        trace := trace w @ [Log_debug ''Started'', Load_dotenv, Load_config]\<rparr>)"
  using assms by (simp add: init_first resolve_provider_def truthy_def started_eq)

text \<open>
  A config that holds only \<open>MODEL\<close>, with a line waiting on standard input that is
  not read.
\<close>

theorem init_no_provider_fails_witness:
  "\<not> init_done (fresh_process [''MODEL'' \<mapsto> ''gpt-4''] False [''sk-ant-abc123''] None)
 \<and> init None (Some ''gpt-4'') False
      (fresh_process [''MODEL'' \<mapsto> ''gpt-4''] False [''sk-ant-abc123''] None) =
     (Inl (ValueError no_provider),
      (fresh_process [''MODEL'' \<mapsto> ''gpt-4''] False [''sk-ant-abc123''] None)
        \<lparr>init_done := True, trace := [Log_debug ''Started'', Load_dotenv, Load_config]\<rparr>)"
proof -
  let ?w = "fresh_process [''MODEL'' \<mapsto> ''gpt-4''] False [''sk-ant-abc123''] None"
  have h: "\<not> init_done ?w" "config_env ?w ''PROVIDER'' = None"
    "config_env ?w ''OPENAI_API_KEY'' = None" "config_env ?w ''ANTHROPIC_API_KEY'' = None"
    by (simp_all add: fresh_process_def)
  have t: "trace ?w = []" by (simp add: fresh_process_def)
  show ?thesis
    using init_no_provider_fails [OF h, of "Some ''gpt-4''"] h(1) t by simp
qed

section \<open>Repeated initialisation\<close>

text \<open>
  C2. Once \<^verbatim>\<open>init\<close> has been invoked in the process, every later call only logs the
  warning and returns: the state is the one it found, with that one warning added to the
  trace, so there is no config read or write, no resolution of provider or model, no
  prompt, no history or tool initialisation. The flag is set after every call, whether it
  completed or raised, so this holds for the second call whatever the first one did and
  whatever the arguments of either are.
\<close>

theorem init_repeat_noop:
  "(init_done w \<longrightarrow>
      init p m i w = (Inr (), w\<lparr>trace := trace w @ [Log_warning ''init() called twice, ignoring'']\<rparr>))
   \<and> init_done (snd (init p m i w))
   \<and> init p' m' i' (snd (init p m i w)) =
       (Inr (), (snd (init p m i w))\<lparr>trace := trace (snd (init p m i w)) @
           [Log_warning ''init() called twice, ignoring'']\<rparr>)"
  using init_done_init [of p m i w]
  by (simp add: init_def log_warning_def emit_def)

text \<open>
  The first call fails for want of a provider; the second one, with a provider, warns
  and does nothing else.
\<close>

theorem init_repeat_noop_witness:
  "fst (init None None False (fresh_process Map.empty False [] None)) =
     Inl (ValueError no_provider)
   \<and> init_done (snd (init None None False (fresh_process Map.empty False [] None)))
   \<and> init (Some ''openai'') None True
        (snd (init None None False (fresh_process Map.empty False [] None))) =
       (Inr (), (snd (init None None False (fresh_process Map.empty False [] None)))
          \<lparr>trace := [Log_debug ''Started'', Load_dotenv, Load_config,
             Log_warning ''init() called twice, ignoring'']\<rparr>)"
proof -
  let ?w = "snd (init None None False (fresh_process Map.empty False [] None))"
  have first: "init None None False (fresh_process Map.empty False [] None) =
      (Inl (ValueError no_provider),
       (fresh_process Map.empty False [] None)\<lparr>init_done := True,
          trace := [Log_debug ''Started'', Load_dotenv, Load_config]\<rparr>)"
    by (simp add: eval_defs)
  have d: "init_done ?w" by (simp add: first)
  have t: "trace ?w = [Log_debug ''Started'', Load_dotenv, Load_config]"
    by (simp add: first)
  show ?thesis
    using init_repeat_noop [of ?w "Some ''openai''" None True] d t first by simp
qed

section \<open>The credential prompt\<close>

text \<open>
  C5, as amended. The line read by the prompt is first stripped of leading and trailing
  whitespace. When the stripped line starts with \<open>sk-ant-\<close> the provider is
  \<open>anthropic\<close> and the stripped line is stored under \<open>env.ANTHROPIC_API_KEY\<close>; every
  other line, the empty one included, gives \<open>openai\<close> and is stored under
  \<open>env.OPENAI_API_KEY\<close>. The prompt makes no other call than its three prints, the
  read and the write to the config: nothing validates the key.
\<close>

theorem credential_classification:
  assumes "stdin w = l # ls"
  shows "(startswith (strip l) ''sk-ant-'' \<longrightarrow>
            fst (ask_for_api_key w) = Inr (''anthropic'', strip l) \<and>
            config_store (snd (ask_for_api_key w)) =
              (config_store w)(''env.ANTHROPIC_API_KEY'' \<mapsto> strip l))
       \<and> (\<not> startswith (strip l) ''sk-ant-'' \<longrightarrow>
            fst (ask_for_api_key w) = Inr (''openai'', strip l) \<and>
            config_store (snd (ask_for_api_key w)) =
              (config_store w)(''env.OPENAI_API_KEY'' \<mapsto> strip l))
       \<and> trace (snd (ask_for_api_key w)) = trace w @
            [Print ''No API key set for OpenAI or Anthropic.'', Print guidance,
             Input ''Your OpenAI or Anthropic API key: '',
             Set_config_value
               (if startswith (strip l) ''sk-ant-'' then ''env.ANTHROPIC_API_KEY''
                else ''env.OPENAI_API_KEY'') (strip l),
             Print (''API key saved to config at '' @ config_path w)]"
  using ask_result [OF assms] ask_config_store [OF assms] ask_trace [OF assms]
  by simp

text \<open>
  The key \<open>sk-ant-abc123\<close> and the empty line.
\<close>

theorem credential_classification_witness:
  "fst (ask_for_api_key (fresh_process Map.empty True [''sk-ant-abc123''] None)) =
     Inr (''anthropic'', ''sk-ant-abc123'')
 \<and> config_store (snd (ask_for_api_key (fresh_process Map.empty True [''sk-ant-abc123''] None))) =
     [''env.ANTHROPIC_API_KEY'' \<mapsto> ''sk-ant-abc123'']
 \<and> fst (ask_for_api_key (fresh_process Map.empty True [''''] None)) = Inr (''openai'', '''')
 \<and> config_store (snd (ask_for_api_key (fresh_process Map.empty True [''''] None))) =
     [''env.OPENAI_API_KEY'' \<mapsto> '''']"
proof -
  let ?w1 = "fresh_process Map.empty True [''sk-ant-abc123''] None"
  let ?w2 = "fresh_process Map.empty True [''''] None"
  have s1: "stdin ?w1 = ''sk-ant-abc123'' # []" and s2: "stdin ?w2 = '''' # []"
    by (simp_all add: fresh_process_def)
  have c: "config_store ?w1 = Map.empty" "config_store ?w2 = Map.empty"
    by (simp_all add: fresh_process_def)
  have e1: "strip ''sk-ant-abc123'' = ''sk-ant-abc123''" and e2: "strip '''' = ''''"
    by (simp_all add: strip_def isspace_def)
  have p1: "startswith ''sk-ant-abc123'' ''sk-ant-''" and p2: "\<not> startswith '''' ''sk-ant-''"
    by (simp_all add: startswith_def)
  show ?thesis
    using credential_classification [OF s1] credential_classification [OF s2] p1 p2
    by (simp add: e1 e2 c)
qed

text \<open>
  The claim as stated fails for a line with leading whitespace: the line does not start
  with \<open>sk-ant-\<close>, yet it is classified as Anthropic and stored under the Anthropic
  key, because line 113 strips it before line 115 looks at its prefix.
\<close>

theorem padded_anthropic_key_counterexample:
  "\<not> startswith '' sk-ant-abc123'' ''sk-ant-''
 \<and> fst (ask_for_api_key (fresh_process Map.empty True ['' sk-ant-abc123''] None)) =
     Inr (''anthropic'', ''sk-ant-abc123'')
 \<and> config_store (snd (ask_for_api_key (fresh_process Map.empty True ['' sk-ant-abc123''] None)))
       ''env.ANTHROPIC_API_KEY'' = Some ''sk-ant-abc123''
 \<and> config_store (snd (ask_for_api_key (fresh_process Map.empty True ['' sk-ant-abc123''] None)))
       ''env.OPENAI_API_KEY'' = None"
  by (simp add: run_defs)

text \<open>
  C6, as amended. The prompt reads exactly one line (it consumes the first waiting line
  and no other, in one single read) and never asks again; the value it writes to the
  config and returns is that line stripped of leading and trailing whitespace, which is
  the line itself when the line is empty or neither begins nor ends with whitespace.
\<close>

theorem credential_single_line:
  assumes "stdin w = l # ls"
  shows "stdin (snd (ask_for_api_key w)) = ls
       \<and> inputs_read (trace (snd (ask_for_api_key w))) = inputs_read (trace w) + 1
       \<and> map_sum id snd (fst (ask_for_api_key w)) = Inr (strip l)
       \<and> written_values (trace (snd (ask_for_api_key w))) = written_values (trace w) @ [strip l]
       \<and> (l = [] \<or> (\<not> isspace (hd l) \<and> \<not> isspace (last l)) \<longrightarrow> strip l = l)"
  using ask_stdin [OF assms] ask_result [OF assms] ask_trace [OF assms] strip_clean [of l]
  by (simp add: written_values_append inputs_read_append)

text \<open>
  A padded line followed by a second line that stays unread, and an unpadded line.
\<close>

theorem credential_single_line_witness:
  "stdin (snd (ask_for_api_key (fresh_process Map.empty True ['' sk-abc '', ''next''] None))) =
     [''next'']
 \<and> inputs_read (trace (snd (ask_for_api_key
       (fresh_process Map.empty True ['' sk-abc '', ''next''] None)))) = 1
 \<and> map_sum id snd (fst (ask_for_api_key
       (fresh_process Map.empty True ['' sk-abc '', ''next''] None))) = Inr ''sk-abc''
 \<and> written_values (trace (snd (ask_for_api_key
       (fresh_process Map.empty True ['' sk-abc '', ''next''] None)))) = [''sk-abc'']
 \<and> map_sum id snd (fst (ask_for_api_key (fresh_process Map.empty True [''sk-abc''] None))) =
     Inr ''sk-abc''"
proof -
  let ?w1 = "fresh_process Map.empty True ['' sk-abc '', ''next''] None"
  let ?w2 = "fresh_process Map.empty True [''sk-abc''] None"
  have s1: "stdin ?w1 = '' sk-abc '' # [''next'']" and s2: "stdin ?w2 = ''sk-abc'' # []"
    by (simp_all add: fresh_process_def)
  have t: "trace ?w1 = []" by (simp add: fresh_process_def)
  have e1: "strip '' sk-abc '' = ''sk-abc''"
    by (simp add: strip_def isspace_def)
  have n: "\<not> isspace (hd ''sk-abc'') \<and> \<not> isspace (last ''sk-abc'')"
    by (simp add: isspace_def)
  show ?thesis
    using credential_single_line [OF s1] credential_single_line [OF s2] n
    by (simp add: e1 t)
qed

text \<open>
  The claim as stated fails for a line with surrounding whitespace: what is stored and
  returned is not the line as read.
\<close>

theorem padded_key_is_stripped_counterexample:
  "fst (ask_for_api_key (fresh_process Map.empty True ['' sk-abc ''] None)) =
     Inr (''openai'', ''sk-abc'')
 \<and> config_store (snd (ask_for_api_key (fresh_process Map.empty True ['' sk-abc ''] None)))
       ''env.OPENAI_API_KEY'' = Some ''sk-abc''
 \<and> ''sk-abc'' \<noteq> '' sk-abc ''"
  by (simp add: run_defs)

section \<open>Model selection\<close>




section \<open>The history\<close>




text \<open>
  C8, as amended. The limit of 100 set by line 93 is applied when the history file is
  written at normal exit: whatever was recorded during the session, the file then holds
  the last 100 entries of the in-memory list (all of them when there are fewer), the
  oldest ones dropped first. After 150 entries it holds exactly the 100 most recent.
  The in-memory list itself is not capped during the session.
\<close>

theorem history_file_bound:
  "fs (normal_exit (record_inputs ls (snd (load_readline_history w)))) (history_path w) =
     Some (drop (length (rl_history (record_inputs ls (snd (load_readline_history w)))) - 100)
        (rl_history (record_inputs ls (snd (load_readline_history w)))))
 \<and> length (drop (length (rl_history (record_inputs ls (snd (load_readline_history w)))) - 100)
        (rl_history (record_inputs ls (snd (load_readline_history w))))) \<le> 100"
proof -
  let ?v = "record_inputs ls (snd (load_readline_history w))"
  have a: "history_path w \<in> set (atexit ?v)"
    by (simp add: record_inputs_frame load_readline_history_eq)
  have n: "rl_history_length ?v = 100"
    by (simp add: record_inputs_frame load_readline_history_eq)
  show ?thesis
    using normal_exit_fs [OF a] n by (simp add: truncate_history_def)
qed

text \<open>
  150 entries recorded on top of an empty history file: the file written at exit holds
  entries 50 to 149.
\<close>

theorem history_file_bound_witness:
  "fs (normal_exit (record_inputs (entries 0 150)
      (snd (load_readline_history (fresh_process Map.empty True [] (Some []))))))
     (history_path (fresh_process Map.empty True [] (Some []))) = Some (entries 50 150)
 \<and> length (entries 50 150) = 100"
proof -
  let ?u = "fresh_process Map.empty True [] (Some [])"
  let ?w = "snd (load_readline_history ?u)"
  have w: "tty ?w" "rl_auto_history ?w" "rl_history ?w = []"
    by (simp_all add: load_readline_history_eq loaded_entries_def fresh_process_def)
  have "rl_history (record_inputs (entries 0 150) ?w) = rl_history ?w @ entries 0 150"
    using w by (intro record_inputs_append entries_nonempty entries_distinct_adj) simp_all
  then have h: "rl_history (record_inputs (entries 0 150) ?w) = entries 0 150"
    by (simp add: w)
  show ?thesis
    using history_file_bound [of "entries 0 150" ?u]
    by (simp add: h length_entries drop_entries)
qed

text \<open>
  The claim as stated fails during the session: after the same 150 entries the in-memory
  list holds all 150 of them.
\<close>

theorem in_memory_history_unbounded:
  "rl_history (record_inputs (entries 0 150)
      (snd (load_readline_history (fresh_process Map.empty True [] (Some []))))) = entries 0 150
 \<and> length (rl_history (record_inputs (entries 0 150)
      (snd (load_readline_history (fresh_process Map.empty True [] (Some [])))))) = 150
 \<and> \<not> length (rl_history (record_inputs (entries 0 150)
      (snd (load_readline_history (fresh_process Map.empty True [] (Some [])))))) \<le> 100"
proof -
  let ?w = "snd (load_readline_history (fresh_process Map.empty True [] (Some [])))"
  have w: "tty ?w" "rl_auto_history ?w" "rl_history ?w = []"
    by (simp_all add: load_readline_history_eq loaded_entries_def fresh_process_def)
  have "rl_history (record_inputs (entries 0 150) ?w) = rl_history ?w @ entries 0 150"
    using w by (intro record_inputs_append entries_nonempty entries_distinct_adj) simp_all
  then show ?thesis by (simp add: w length_entries)
qed

section \<open>Credentials and the history\<close>

text \<open>
  C3. Credential setup is meant to be complete before the history is initialised, so
  that no credential value is ever persisted into the interactive history. In a fresh
  process at a terminal, with nothing configured, the calls are in that order (the write
  of the prompted credential and \<^verbatim>\<open>init_llm\<close> come before every call of
  \<open>load_readline_history\<close>), and yet the credential is in the history: the line typed
  at the prompt is recorded by readline, whose auto-history is on from the start, the
  history loading appends to the list, and the file written at exit holds the credential.
\<close>

theorem prompted_credential_enters_history:
  "fst (init None None True (fresh_process Map.empty True [''sk-ant-secret''] None)) = Inr ()
 \<and> config_store (snd (init None None True
       (fresh_process Map.empty True [''sk-ant-secret''] None))) ''env.ANTHROPIC_API_KEY''
     = Some ''sk-ant-secret''
 \<and> rl_history (snd (init None None True
       (fresh_process Map.empty True [''sk-ant-secret''] None))) =
     ''sk-ant-secret'' # history_examples
 \<and> fs (normal_exit (snd (init None None True
       (fresh_process Map.empty True [''sk-ant-secret''] None)))) ''history'' =
     Some (''sk-ant-secret'' # history_examples)
 \<and> trace (snd (init None None True
       (fresh_process Map.empty True [''sk-ant-secret''] None))) =
     [Log_debug ''Started'', Load_dotenv, Load_config,
      Print ''No API key set for OpenAI or Anthropic.'', Print guidance,
      Input ''Your OpenAI or Anthropic API key: '',
      Set_config_value ''env.ANTHROPIC_API_KEY'' ''sk-ant-secret'',
      Print ''API key saved to config at config.toml'',
      Init_llm ''anthropic'', Set_default_model ''recommended-anthropic'',
      Log_debug ''Loading history'', Set_auto_history True, Set_history_length 100,
      Read_history_file ''history''] @ map Add_history history_examples @
     [Atexit_register ''history'', Register_tabcomplete, Init_tools]"
proof -
  have n: "length history_examples = 6"
    by (simp add: history_examples_def)
  show ?thesis
    by (simp add: init_def resolve_provider_def bootstrap_def ask_for_api_key_def
        load_readline_history_eq loaded_entries_def history_events_def select_model_def
        or_else_def truthy_def fresh_process_def ops_defs input_def auto_add_history_def
        strip_def startswith_def isspace_def Let_def normal_exit_def write_history_file_def
        truncate_history_def n)
qed

end
